theory Spec2Isabelle
  imports Complex_Main
begin

section \<open>Conventions of the embedding\<close>

text \<open>
  The simulator is Python. Its floats are modelled by \<^typ>\<open>real\<close> (exact arithmetic, no
  rounding error), its unbounded integers by \<^typ>\<open>int\<close>. Every exception the modelled code
  can raise is a value of \<open>error\<close>; a float division whose divisor is zero raises
  \<open>ZeroDivisionError\<close>, \<open>math.sqrt\<close> and \<open>math.log\<close> outside their domain raise
  \<open>ValueError\<close>, a failed \<open>assert\<close> raises \<open>AssertionError\<close>.
\<close>

datatype error =
    AssertionError
  | ZeroDivisionError
  | ValueError
  | OverflowError
  | KeyError
  | StopIteration

text \<open>Python's \<open>int(x)\<close> on a float truncates toward zero.\<close>

definition py_int :: "real \<Rightarrow> int" where
  "py_int x = (if 0 \<le> x then \<lfloor>x\<rfloor> else \<lceil>x\<rceil>)"

text \<open>\<open>math.inf\<close> beside the integers: the candidates \<open>l0\<close>, \<open>l1\<close> of the sizing algorithm.\<close>

datatype liq = Fin int | Inf

fun liq_less :: "liq \<Rightarrow> liq \<Rightarrow> bool" where
  "liq_less (Fin a) (Fin b) = (a < b)"
| "liq_less (Fin a) Inf = True"
| "liq_less Inf _ = False"

fun liq_min :: "liq \<Rightarrow> liq \<Rightarrow> liq" where
  "liq_min (Fin a) (Fin b) = Fin (min a b)"
| "liq_min (Fin a) Inf = Fin a"
| "liq_min Inf l = l"

section \<open>PositionUtil: the sizing algorithm\<close>

text \<open>
  \<open>PositionUtil.cal_liquidity_sqrt(sqrt_price, sqrt_lower, sqrt_upper, amt0, amt1)\<close>, a static
  method: it reads and writes no object. \<open>if amt0:\<close> is \<open>amt0 \<noteq> 0\<close>. The candidates start as
  \<open>math.inf\<close>; \<open>int(math.inf * x)\<close> would raise, which the assertion of the branch excludes.
\<close>

definition cal_liquidity_sqrt ::
  "real \<Rightarrow> real \<Rightarrow> real \<Rightarrow> int \<Rightarrow> int \<Rightarrow> error + (int \<times> int \<times> int)" where
  "cal_liquidity_sqrt sqrt_price sqrt_lower sqrt_upper amt0 amt1 =
    (if sqrt_price \<le> sqrt_lower then
       (if amt0 = 0 then Inl AssertionError
        else if sqrt_upper - sqrt_lower = 0 then Inl ZeroDivisionError
        else Inr (py_int (real_of_int amt0 * (sqrt_upper * sqrt_lower / (sqrt_upper - sqrt_lower))),
                  amt0, 0))
     else if sqrt_price \<le> sqrt_upper then
       (if amt0 = 0 \<and> amt1 = 0 then Inl AssertionError
        else if amt0 \<noteq> 0 \<and> sqrt_upper - sqrt_price = 0 then Inl ZeroDivisionError
        else if amt1 \<noteq> 0 \<and> sqrt_price - sqrt_lower = 0 then Inl ZeroDivisionError
        else
          let l0 = (if amt0 \<noteq> 0
                    then Fin (py_int (real_of_int amt0 * (sqrt_upper * sqrt_price)
                                        / (sqrt_upper - sqrt_price)))
                    else Inf);
              l1 = (if amt1 \<noteq> 0
                    then Fin (py_int (real_of_int amt1 / (sqrt_price - sqrt_lower)))
                    else Inf)
          in if liq_less l0 l1 then
               (case l0 of
                  Fin a \<Rightarrow> Inr (a, amt0, py_int (real_of_int a * (sqrt_price - sqrt_lower)))
                | Inf \<Rightarrow> Inl OverflowError)
             else
               (case l1 of
                  Fin b \<Rightarrow>
                    if sqrt_upper * sqrt_price = 0 then Inl ZeroDivisionError
                    else Inr (b,
                              py_int (real_of_int b * (sqrt_upper - sqrt_price)
                                        / (sqrt_upper * sqrt_price)),
                              amt1)
                | Inf \<Rightarrow> Inl OverflowError))
     else
       (if amt1 = 0 then Inl AssertionError
        else if sqrt_upper - sqrt_lower = 0 then Inl ZeroDivisionError
        else Inr (py_int (real_of_int amt1 / (sqrt_upper - sqrt_lower)), 0, amt1)))"

text \<open>
  \<open>PositionUtil.cal_liquidity(cprice, upper, lower, amt0, amt1)\<close>: the same three cases on
  prices, every square root taken by \<open>math.sqrt\<close>, which raises on a negative argument.
\<close>

definition cal_liquidity ::
  "real \<Rightarrow> real \<Rightarrow> real \<Rightarrow> int \<Rightarrow> int \<Rightarrow> error + (int \<times> int \<times> int)" where
  "cal_liquidity cprice upper lower amt0 amt1 =
    (if cprice \<le> lower then
       (if amt0 = 0 then Inl AssertionError
        else if upper < 0 \<or> lower < 0 then Inl ValueError
        else if sqrt upper - sqrt lower = 0 then Inl ZeroDivisionError
        else Inr (py_int (real_of_int amt0 * (sqrt upper * sqrt lower / (sqrt upper - sqrt lower))),
                  amt0, 0))
     else if cprice \<le> upper then
       (if amt0 = 0 \<and> amt1 = 0 then Inl AssertionError
        else if amt0 \<noteq> 0 \<and> (upper < 0 \<or> cprice < 0) then Inl ValueError
        else if amt0 \<noteq> 0 \<and> sqrt upper - sqrt cprice = 0 then Inl ZeroDivisionError
        else if amt1 \<noteq> 0 \<and> (cprice < 0 \<or> lower < 0) then Inl ValueError
        else if amt1 \<noteq> 0 \<and> sqrt cprice - sqrt lower = 0 then Inl ZeroDivisionError
        else
          let l0 = (if amt0 \<noteq> 0
                    then Fin (py_int (real_of_int amt0 * (sqrt upper * sqrt cprice)
                                        / (sqrt upper - sqrt cprice)))
                    else Inf);
              l1 = (if amt1 \<noteq> 0
                    then Fin (py_int (real_of_int amt1 / (sqrt cprice - sqrt lower)))
                    else Inf)
          in if liq_less l0 l1 then
               (case l0 of
                  Fin a \<Rightarrow>
                    if cprice < 0 \<or> lower < 0 then Inl ValueError
                    else Inr (a, amt0, py_int (real_of_int a * (sqrt cprice - sqrt lower)))
                | Inf \<Rightarrow> Inl OverflowError)
             else
               (case l1 of
                  Fin b \<Rightarrow>
                    if upper < 0 \<or> cprice < 0 then Inl ValueError
                    else if sqrt upper * sqrt cprice = 0 then Inl ZeroDivisionError
                    else Inr (b,
                              py_int (real_of_int b * (sqrt upper - sqrt cprice)
                                        / (sqrt upper * sqrt cprice)),
                              amt1)
                | Inf \<Rightarrow> Inl OverflowError))
     else
       (if amt1 = 0 then Inl AssertionError
        else if upper < 0 \<or> lower < 0 then Inl ValueError
        else if sqrt upper - sqrt lower = 0 then Inl ZeroDivisionError
        else Inr (py_int (real_of_int amt1 / (sqrt upper - sqrt lower)), 0, amt1)))"

text \<open>
  \<open>PositionUtil\<close>, the state of the pure range calculator, and \<open>PositionInstance\<close>, which
  extends it with fees and logs, are one record. The four attributes \<open>low_price_sqrt\<close>,
  \<open>low_price_sqrt_r\<close>, \<open>high_price_sqrt\<close>, \<open>high_price_sqrt_r\<close> are assigned once in
  \<open>__init__\<close> from the ticks and never again, so they are functions of the record. The
  attributes that only feed reports (\<open>decimals\<close>, \<open>factor0\<close>, \<open>factor1\<close>, \<open>factor\<close>,
  \<open>cex_price_lower\<close>, \<open>cex_price_upper\<close>) are left out. \<open>liquidity\<close> is an int after
  \<open>mint\<close> and may become a float in \<open>decrease_liquidity\<close> (\<open>self.liquidity*pct\<close>).
\<close>

datatype LiquidityLog = LiquidityLog int int real

datatype PositionBalanceLog = PositionBalanceLog int int int int int int

datatype WalletLog = WalletLog int int int int

record position_instance =
  liquidity :: real
  tick_lower :: int
  tick_upper :: int
  amount0_edge :: int
  amount1_edge :: int
  fee_rate :: int
  fee0 :: int
  fee1 :: int
  token_id :: int
  balance :: "PositionBalanceLog list"
  history :: "LiquidityLog list"

definition low_price_sqrt :: "position_instance \<Rightarrow> real" where
  "low_price_sqrt p = (10001 / 10000) powr (real_of_int (tick_lower p) / 2)"

definition low_price_sqrt_r :: "position_instance \<Rightarrow> real" where
  "low_price_sqrt_r p = 1 / low_price_sqrt p"

definition high_price_sqrt :: "position_instance \<Rightarrow> real" where
  "high_price_sqrt p = (10001 / 10000) powr (real_of_int (tick_upper p) / 2)"

definition high_price_sqrt_r :: "position_instance \<Rightarrow> real" where
  "high_price_sqrt_r p = 1 / high_price_sqrt p"

definition update_liquidity :: "position_instance \<Rightarrow> real \<Rightarrow> position_instance" where
  "update_liquidity p l =
     p\<lparr>liquidity := l,
       amount0_edge := py_int (l * (low_price_sqrt_r p - high_price_sqrt_r p)),
       amount1_edge := py_int (l * (high_price_sqrt p - low_price_sqrt p))\<rparr>"

text \<open>
  \<open>PositionInstance.__init__\<close> with the assertions of \<open>PositionUtil.__init__\<close>. Python's
  \<open>%\<close> with a positive divisor is \<open>mod\<close>.
\<close>

definition PositionInstance ::
  "real \<Rightarrow> int \<Rightarrow> int \<Rightarrow> int \<Rightarrow> int \<Rightarrow> error + position_instance" where
  "PositionInstance l t_lower t_upper fee_rate_v tid =
     (if \<not> t_lower < t_upper then Inl AssertionError
      else if t_lower mod 60 \<noteq> 0 then Inl AssertionError
      else if t_upper mod 60 \<noteq> 0 then Inl AssertionError
      else Inr (update_liquidity
                  \<lparr>liquidity = l, tick_lower = t_lower, tick_upper = t_upper,
                   amount0_edge = 0, amount1_edge = 0,
                   fee_rate = fee_rate_v, fee0 = 0, fee1 = 0, token_id = tid,
                   balance = [], history = []\<rparr> l))"

text \<open>
  In the middle branch \<open>psqrt\<close> is above \<open>low_price_sqrt\<close>, which is positive, so
  \<open>1 / psqrt\<close> cannot raise there.
\<close>

definition amount0_psqrt :: "position_instance \<Rightarrow> real \<Rightarrow> int" where
  "amount0_psqrt p psqrt =
     (if psqrt \<le> low_price_sqrt p then amount0_edge p
      else if psqrt < high_price_sqrt p
      then py_int (liquidity p * (1 / psqrt - high_price_sqrt_r p))
      else 0)"

definition amount1_psqrt :: "position_instance \<Rightarrow> real \<Rightarrow> int" where
  "amount1_psqrt p psqrt =
     (if psqrt \<le> low_price_sqrt p then 0
      else if psqrt < high_price_sqrt p
      then py_int (liquidity p * (psqrt - low_price_sqrt p))
      else amount1_edge p)"

section \<open>PositionInstance\<close>

text \<open>
  The methods of \<open>PositionInstance\<close> return the result and the updated object. Each of them
  raises, if at all, before its first assignment, so a failure leaves the object as it was and
  the model returns the error alone.
\<close>

definition position_increase_liquidity ::
  "position_instance \<Rightarrow> real \<Rightarrow> int \<Rightarrow> int \<Rightarrow> error + ((int \<times> int \<times> int) \<times> position_instance)" where
  "position_increase_liquidity p sqrt_price_v amount0_v amount1_v =
     (let amt0 = amount0_psqrt p sqrt_price_v;
          amt1 = amount1_psqrt p sqrt_price_v
      in case cal_liquidity_sqrt sqrt_price_v (low_price_sqrt p) (high_price_sqrt p)
                amount0_v amount1_v of
           Inl e \<Rightarrow> Inl e
         | Inr (l, _, _) \<Rightarrow>
             let p' = update_liquidity p (liquidity p + real_of_int l)
             in Inr ((l, amount0_psqrt p' sqrt_price_v - amt0,
                         amount1_psqrt p' sqrt_price_v - amt1), p'))"

text \<open>
  \<open>decrease_liquidity(self, sqrt_price, liquidity=None, pct=1)\<close>: \<open>None\<close> and \<open>0\<close> are both
  falsy in \<open>assert liquidity or pct\<close> and in \<open>if not liquidity\<close>.
\<close>

definition falsy_liquidity :: "real option \<Rightarrow> bool" where
  "falsy_liquidity l = (l = None \<or> l = Some 0)"

definition position_decrease_liquidity ::
  "position_instance \<Rightarrow> real \<Rightarrow> real option \<Rightarrow> real
     \<Rightarrow> error + ((real \<times> int \<times> int) \<times> position_instance)" where
  "position_decrease_liquidity p sqrt_price_v liquidity_v pct =
     (if falsy_liquidity liquidity_v \<and> pct = 0 then Inl AssertionError
      else if falsy_liquidity liquidity_v \<and> \<not> (0 < pct \<and> pct \<le> 1) then Inl AssertionError
      else
        let l = (if falsy_liquidity liquidity_v then liquidity p * pct
                 else (case liquidity_v of Some v \<Rightarrow> v | None \<Rightarrow> 0));
            a0 = amount0_psqrt p sqrt_price_v;
            a1 = amount1_psqrt p sqrt_price_v;
            p' = update_liquidity p (liquidity p - l)
        in Inr ((liquidity p', a0 - amount0_psqrt p' sqrt_price_v,
                               a1 - amount1_psqrt p' sqrt_price_v), p'))"

definition position_swap ::
  "position_instance \<Rightarrow> real \<Rightarrow> real \<Rightarrow> (int \<times> int) \<times> position_instance" where
  "position_swap p from_sqrt_price to_sqrt_price =
     (if to_sqrt_price > from_sqrt_price then
        let amount1_d = amount1_psqrt p to_sqrt_price - amount1_psqrt p from_sqrt_price;
            fee1_d = py_int (real_of_int (amount1_d * fee_rate p) / 1000000)
        in ((0, fee1_d), p\<lparr>fee1 := fee1 p + fee1_d\<rparr>)
      else
        let amount0_d = amount0_psqrt p to_sqrt_price - amount0_psqrt p from_sqrt_price;
            fee0_d = py_int (real_of_int (amount0_d * fee_rate p) / 1000000)
        in ((fee0_d, 0), p\<lparr>fee0 := fee0 p + fee0_d\<rparr>))"

text \<open>\<open>is_active\<close> returns \<open>self.liquidity and ...\<close>; the model returns its truth value.\<close>

definition is_active :: "position_instance \<Rightarrow> real \<Rightarrow> bool" where
  "is_active p sqrt_price_v =
     (liquidity p \<noteq> 0 \<and> low_price_sqrt p \<le> sqrt_price_v \<and> sqrt_price_v \<le> high_price_sqrt p)"

definition position_collect :: "position_instance \<Rightarrow> (int \<times> int) \<times> position_instance" where
  "position_collect p = ((fee0 p, fee1 p), p\<lparr>fee0 := 0, fee1 := 0\<rparr>)"

definition log_history :: "position_instance \<Rightarrow> int \<Rightarrow> int \<Rightarrow> position_instance" where
  "log_history p block ts = p\<lparr>history := history p @ [LiquidityLog block ts (liquidity p)]\<rparr>"

definition log_balance ::
  "position_instance \<Rightarrow> int \<Rightarrow> int \<Rightarrow> real \<Rightarrow> int \<Rightarrow> int \<Rightarrow> position_instance" where
  "log_balance p block ts sqrt_price_v fee0_v fee1_v =
     p\<lparr>balance := balance p @
         [PositionBalanceLog block ts (amount0_psqrt p sqrt_price_v)
            (amount1_psqrt p sqrt_price_v) fee0_v fee1_v]\<rparr>"

section \<open>PoolSimiulation\<close>

text \<open>
  The two dictionaries \<open>positions\<close> and \<open>valid_positions\<close> hold the same objects: \<open>mint\<close>
  stores each new position in both under its own \<open>token_id\<close>, and no other code writes
  \<open>positions\<close>. The objects therefore live in the map \<open>positions\<close>, and \<open>valid_positions\<close> is
  the list of its keys, in insertion order. \<open>fee\<close> is \<open>self.fee.value\<close>, the integer of the
  \<open>PoolFee\<close> enum member (the enum itself is declared outside the modelled files).
\<close>

record pool_simulation =
  decimal0 :: int
  decimal1 :: int
  amount0 :: int
  amount1 :: int
  positions :: "int \<rightharpoonup> position_instance"
  valid_positions :: "int list"
  priv_next_token_id :: int
  fee :: int
  tick :: int
  sqrt_price_x96 :: int
  sqrt_price :: real
  block_number :: int
  timestamp :: int
  L :: int
  wallet_logs :: "WalletLog list"

record swap_event =
  ev_sqrtPriceX96 :: int
  ev_tick :: int
  ev_blockNumber :: int
  ev_liquidity :: int
  ev_timestamp :: "int option"

record 'a time_event =
  tm_timestamp :: "int option"
  tm_data :: 'a

definition PRICE_FACTOR :: int where
  "PRICE_FACTOR = 2 ^ 96"

definition PoolSimiulation :: "int \<Rightarrow> int \<Rightarrow> int \<Rightarrow> int \<Rightarrow> int \<Rightarrow> pool_simulation" where
  "PoolSimiulation amount0_v amount1_v decimal0_v decimal1_v fee_v =
     \<lparr>decimal0 = decimal0_v, decimal1 = decimal1_v, amount0 = amount0_v, amount1 = amount1_v,
      positions = Map.empty, valid_positions = [], priv_next_token_id = 0, fee = fee_v,
      tick = 0, sqrt_price_x96 = 0, sqrt_price = 0, block_number = 0, timestamp = 0, L = 0,
      wallet_logs = []\<rparr>"

definition record_wallet :: "pool_simulation \<Rightarrow> pool_simulation" where
  "record_wallet st =
     st\<lparr>wallet_logs := wallet_logs st @
          [WalletLog (block_number st) (timestamp st) (amount0 st) (amount1 st)]\<rparr>"

text \<open>The property \<open>next_token_id\<close> increments the counter and returns it.\<close>

definition next_token_id :: "pool_simulation \<Rightarrow> int \<times> pool_simulation" where
  "next_token_id st =
     (priv_next_token_id st + 1, st\<lparr>priv_next_token_id := priv_next_token_id st + 1\<rparr>)"

text \<open>\<open>d[k] = v\<close> and \<open>d.pop(k, None)\<close> on the keys of an insertion-ordered dictionary.\<close>

definition dict_set_key :: "int list \<Rightarrow> int \<Rightarrow> int list" where
  "dict_set_key ks k = (if k \<in> set ks then ks else ks @ [k])"

definition dict_pop_key :: "int list \<Rightarrow> int \<Rightarrow> int list" where
  "dict_pop_key ks k = removeAll k ks"

text \<open>
  The operations of the simulator return the result, or the exception raised, together with
  the state the call leaves behind.
\<close>

definition mint ::
  "pool_simulation \<Rightarrow> int \<Rightarrow> int \<Rightarrow> int \<Rightarrow> int
     \<Rightarrow> (error + (position_instance \<times> int \<times> int)) \<times> pool_simulation" where
  "mint st lower_v upper_v amount0_v amount1_v =
     (let lower = lower_v - lower_v mod 60;
          upper = upper_v - upper_v mod 60
      in if \<not> amount0 st \<ge> amount0_v then (Inl AssertionError, st)
         else if \<not> amount1 st \<ge> amount1_v then (Inl AssertionError, st)
         else
           case cal_liquidity_sqrt (sqrt_price st)
                  ((10001 / 10000) powr (real_of_int lower / 2))
                  ((10001 / 10000) powr (real_of_int upper / 2))
                  amount0_v amount1_v of
             Inl e \<Rightarrow> (Inl e, st)
           | Inr (l, _, _) \<Rightarrow>
               let (tid, st1) = next_token_id st
               in (case PositionInstance (real_of_int l) lower upper (fee st) tid of
                    Inl e \<Rightarrow> (Inl e, st1)
                  | Inr position \<Rightarrow>
                      let amt0 = amount0_psqrt position (sqrt_price st1);
                          amt1 = amount1_psqrt position (sqrt_price st1);
                          st2 = st1\<lparr>amount0 := amount0 st1 - amt0,
                                    amount1 := amount1 st1 - amt1\<rparr>;
                          position1 = log_history position (block_number st2) (timestamp st2);
                          position2 = log_balance position1 (block_number st2) (timestamp st2)
                                        (sqrt_price st2) 0 0;
                          st3 = st2\<lparr>valid_positions :=
                                      dict_set_key (valid_positions st2) (token_id position),
                                    positions := (positions st2)(token_id position \<mapsto> position2)\<rparr>
                      in (Inr (position2, amt0, amt1), record_wallet st3)))"

definition increase_liquidity ::
  "pool_simulation \<Rightarrow> int \<Rightarrow> int \<Rightarrow> int
     \<Rightarrow> (error + (position_instance \<times> int \<times> int)) \<times> pool_simulation" where
  "increase_liquidity st tid amount0_v amount1_v =
     (case positions st tid of
        None \<Rightarrow> (Inl KeyError, st)
      | Some position \<Rightarrow>
          let org_l = liquidity position
          in (case position_increase_liquidity position (sqrt_price st) amount0_v amount1_v of
               Inl e \<Rightarrow> (Inl e, st)
             | Inr ((l, amt0, amt1), position1) \<Rightarrow>
                 if \<not> amount0 st \<ge> amt0 then
                   (Inl AssertionError,
                    st\<lparr>positions := (positions st)(tid \<mapsto> update_liquidity position1 org_l)\<rparr>)
                 else if \<not> amount1 st \<ge> amt1 then
                   (Inl AssertionError,
                    st\<lparr>positions := (positions st)(tid \<mapsto> update_liquidity position1 org_l)\<rparr>)
                 else
                   let st1 = st\<lparr>amount0 := amount0 st - amt0, amount1 := amount1 st - amt1\<rparr>;
                       position2 = log_history position1 (block_number st1) (timestamp st1);
                       position3 = log_balance position2 (block_number st1) (timestamp st1)
                                     (sqrt_price st1) 0 0;
                       st2 = st1\<lparr>valid_positions :=
                                   dict_set_key (valid_positions st1) (token_id position),
                                 positions := (positions st1)(tid \<mapsto> position3)\<rparr>
                   in (Inr (position3, amt0, amt1), record_wallet st2)))"

definition decrease_liquidity ::
  "pool_simulation \<Rightarrow> int \<Rightarrow> real option \<Rightarrow> real
     \<Rightarrow> (error + (position_instance \<times> int \<times> int)) \<times> pool_simulation" where
  "decrease_liquidity st tid liquidity_v pct =
     (case positions st tid of
        None \<Rightarrow> (Inl KeyError, st)
      | Some position \<Rightarrow>
          (case position_decrease_liquidity position (sqrt_price st) liquidity_v pct of
             Inl e \<Rightarrow> (Inl e, st)
           | Inr ((l, amt0, amt1), position1) \<Rightarrow>
               let st1 = st\<lparr>amount0 := amount0 st + amt0, amount1 := amount1 st + amt1\<rparr>;
                   valid = (if liquidity position1 = 0
                            then dict_pop_key (valid_positions st1) (token_id position1)
                            else valid_positions st1);
                   position2 = log_history position1 (block_number st1) (timestamp st1);
                   st2 = st1\<lparr>valid_positions := valid,
                             positions := (positions st1)(tid \<mapsto> position2)\<rparr>
               in (Inr (position2, amt0, amt1), record_wallet st2)))"

definition collect :: "pool_simulation \<Rightarrow> int \<Rightarrow> (error + (int \<times> int)) \<times> pool_simulation" where
  "collect st tid =
     (case positions st tid of
        None \<Rightarrow> (Inl KeyError, st)
      | Some position \<Rightarrow>
          let ((amt0, amt1), position1) = position_collect position;
              st1 = st\<lparr>amount0 := amount0 st + amt0, amount1 := amount1 st + amt1\<rparr>;
              position2 = log_balance position1 (block_number st1) (timestamp st1)
                            (sqrt_price st1) (- amt0) (- amt1);
              st2 = st1\<lparr>positions := (positions st1)(tid \<mapsto> position2)\<rparr>
          in (Inr (amt0, amt1), record_wallet st2))"

definition init :: "pool_simulation \<Rightarrow> swap_event \<Rightarrow> pool_simulation" where
  "init st ev =
     st\<lparr>sqrt_price_x96 := ev_sqrtPriceX96 ev,
        tick := ev_tick ev,
        block_number := ev_blockNumber ev,
        sqrt_price := real_of_int (ev_sqrtPriceX96 ev) / real_of_int PRICE_FACTOR,
        timestamp := (case ev_timestamp ev of None \<Rightarrow> 0 | Some t \<Rightarrow> t),
        L := ev_liquidity ev\<rparr>"

text \<open>
  The body of the loop of \<open>on_swap\<close> for one position, and the loop over
  \<open>valid_positions.values()\<close>, which visits the objects in the order of the keys.
\<close>

definition accrue :: "real \<Rightarrow> pool_simulation \<Rightarrow> position_instance \<Rightarrow> position_instance" where
  "accrue former_price st position =
     (let ((fee0_d, fee1_d), position1) = position_swap position former_price (sqrt_price st)
      in log_balance position1 (block_number st) (timestamp st) (sqrt_price st) fee0_d fee1_d)"

fun on_swap_positions ::
  "real \<Rightarrow> pool_simulation \<Rightarrow> int list \<Rightarrow> (int \<rightharpoonup> position_instance)
     \<Rightarrow> (int \<rightharpoonup> position_instance)" where
  "on_swap_positions former_price st [] m = m"
| "on_swap_positions former_price st (k # ks) m =
     on_swap_positions former_price st ks
       (case m k of None \<Rightarrow> m | Some position \<Rightarrow> m(k \<mapsto> accrue former_price st position))"

definition on_swap :: "pool_simulation \<Rightarrow> swap_event \<Rightarrow> pool_simulation" where
  "on_swap st ev =
     (let former_price = sqrt_price st;
          st1 = st\<lparr>sqrt_price_x96 := ev_sqrtPriceX96 ev,
                    tick := ev_tick ev,
                    block_number := ev_blockNumber ev,
                    L := ev_liquidity ev,
                    sqrt_price := real_of_int (ev_sqrtPriceX96 ev) / real_of_int PRICE_FACTOR,
                    timestamp := (case ev_timestamp ev of None \<Rightarrow> 0 | Some t \<Rightarrow> t)\<rparr>;
          st2 = st1\<lparr>positions :=
                      on_swap_positions former_price st1 (valid_positions st1) (positions st1)\<rparr>
      in record_wallet st2)"

text \<open>
  \<open>swap(self, in_token, amount=0, pct=0)\<close>. \<open>in_token\<close>, \<open>amount\<close> and \<open>pct\<close> are tested for
  truth, that is, against zero. The divisions of the output formula raise on a zero divisor,
  after the assertion and before the first assignment.
\<close>

definition swap :: "pool_simulation \<Rightarrow> int \<Rightarrow> int \<Rightarrow> real \<Rightarrow> (error + int) \<times> pool_simulation" where
  "swap st in_token amount_v pct =
     (if in_token \<noteq> 0 then
        (if amount_v = 0 \<and> pct = 0 then (Inl ValueError, st)
         else
           let amount = (if amount_v = 0 then py_int (real_of_int (amount1 st) * pct) else amount_v);
               total_amount = py_int (real_of_int amount * (real_of_int (fee st) / 1000000 + 1))
           in if \<not> amount1 st > total_amount then (Inl AssertionError, st)
              else if sqrt_price st = 0 then (Inl ZeroDivisionError, st)
              else if real_of_int (L st) * sqrt_price st + real_of_int amount = 0
                then (Inl ZeroDivisionError, st)
              else
                let amount0_d = py_int (real_of_int (L st) *
                        (1 / sqrt_price st
                         - real_of_int (L st)
                             / (real_of_int (L st) * sqrt_price st + real_of_int amount)))
                in (Inr amount0_d,
                    st\<lparr>amount0 := amount0 st + amount0_d,
                       amount1 := amount1 st - total_amount\<rparr>))
      else
        (if amount_v = 0 \<and> pct = 0 then (Inl ValueError, st)
         else
           let amount = (if amount_v = 0 then py_int (real_of_int (amount0 st) * pct) else amount_v);
               total_amount = py_int (real_of_int amount * (real_of_int (fee st) / 1000000 + 1))
           in if \<not> amount0 st > total_amount then (Inl AssertionError, st)
              else if sqrt_price st = 0 then (Inl ZeroDivisionError, st)
              else if real_of_int (L st) / sqrt_price st + real_of_int amount = 0
                then (Inl ZeroDivisionError, st)
              else
                let amount1_d = py_int (real_of_int (L st) *
                        (sqrt_price st
                         - real_of_int (L st)
                             / (real_of_int (L st) / sqrt_price st + real_of_int amount)))
                in (Inr amount1_d,
                    st\<lparr>amount1 := amount1 st + amount1_d,
                       amount0 := amount0 st - total_amount\<rparr>)))"

subsection \<open>The event loop\<close>

text \<open>
  Python compares the tuples \<open>(swap["timestamp"], 1) <= (data["timestamp"], 0)\<close>
  lexicographically: the first components decide unless they are equal.
\<close>

definition py_tuple_le :: "int \<times> int \<Rightarrow> int \<times> int \<Rightarrow> bool" where
  "py_tuple_le x y =
     (if fst x \<noteq> fst y then fst x \<le> fst y
      else if snd x \<noteq> snd y then snd x \<le> snd y
      else True)"

text \<open>
  \<open>run\<close> calls the methods \<open>self.on_swap\<close> and \<open>self.on_time\<close>; the latter is the strategy's
  override. Both are parameters of the loop, each taking the event and the state to the new
  state or to the exception that ends the run. A record without the key \<open>"timestamp"\<close> raises
  \<open>KeyError\<close>. \<open>drain\<close> is the loop \<open>for i in range(it.__length_hint__()): h(next(it))\<close> over
  what is left of an iterator.
\<close>

fun drain :: "('e \<Rightarrow> 's \<Rightarrow> error + 's) \<Rightarrow> 'e list \<Rightarrow> 's \<Rightarrow> error + 's" where
  "drain h [] st = Inr st"
| "drain h (e # es) st = (case h e st of Inl err \<Rightarrow> Inl err | Inr st' \<Rightarrow> drain h es st')"

fun run_loop ::
  "(swap_event \<Rightarrow> 's \<Rightarrow> error + 's) \<Rightarrow> ('a time_event \<Rightarrow> 's \<Rightarrow> error + 's)
     \<Rightarrow> swap_event \<Rightarrow> swap_event list \<Rightarrow> 'a time_event \<Rightarrow> 'a time_event list
     \<Rightarrow> 's \<Rightarrow> error + 's" where
  "run_loop h_swap h_time swap_v swap_events data time_list st =
     (case ev_timestamp swap_v of
        None \<Rightarrow> Inl KeyError
      | Some ts \<Rightarrow>
          (case tm_timestamp data of
             None \<Rightarrow> Inl KeyError
           | Some td \<Rightarrow>
               if py_tuple_le (ts, 1) (td, 0) then
                 (case h_swap swap_v st of
                    Inl err \<Rightarrow> Inl err
                  | Inr st' \<Rightarrow>
                      (case swap_events of
                         [] \<Rightarrow> drain h_time time_list st'
                       | swap' # rest \<Rightarrow> run_loop h_swap h_time swap' rest data time_list st'))
               else
                 (case h_time data st of
                    Inl err \<Rightarrow> Inl err
                  | Inr st' \<Rightarrow>
                      (case time_list of
                         [] \<Rightarrow> drain h_swap swap_events st'
                       | data' # rest \<Rightarrow> run_loop h_swap h_time swap_v swap_events data' rest st'))))"

definition run ::
  "(swap_event \<Rightarrow> 's \<Rightarrow> error + 's) \<Rightarrow> ('a time_event \<Rightarrow> 's \<Rightarrow> error + 's)
     \<Rightarrow> swap_event list \<Rightarrow> 'a time_event list \<Rightarrow> 's \<Rightarrow> error + 's" where
  "run h_swap h_time swaps time_data st =
     (case swaps of
        [] \<Rightarrow> Inl StopIteration
      | swap_v # swap_events \<Rightarrow>
          (case time_data of
             [] \<Rightarrow> Inl StopIteration
           | data # time_list \<Rightarrow> run_loop h_swap h_time swap_v swap_events data time_list st))"

text \<open>The calls \<open>run\<close> makes, in order, are observed by handlers that append to a trace.\<close>

datatype 'a call = OnSwap swap_event | OnTime "'a time_event"

definition trace_swap :: "swap_event \<Rightarrow> 'a call list \<Rightarrow> error + 'a call list" where
  "trace_swap e tr = Inr (tr @ [OnSwap e])"

definition trace_time :: "'a time_event \<Rightarrow> 'a call list \<Rightarrow> error + 'a call list" where
  "trace_time d tr = Inr (tr @ [OnTime d])"

section \<open>PriceConverter\<close>

record price_converter =
  pc_decimal0 :: int
  pc_decimal1 :: int
  factor :: real

text \<open>\<open>10**(decimal1-decimal0)\<close>: an int for a non-negative exponent, a float otherwise.\<close>

definition PriceConverter :: "int \<Rightarrow> int \<Rightarrow> price_converter" where
  "PriceConverter d0 d1 =
     \<lparr>pc_decimal0 = d0, pc_decimal1 = d1,
      factor = (if 0 \<le> d1 - d0 then 10 ^ nat (d1 - d0) else 1 / 10 ^ nat (d0 - d1))\<rparr>"

definition price_to_dex :: "price_converter \<Rightarrow> real \<Rightarrow> bool \<Rightarrow> error + real" where
  "price_to_dex pc price reverse =
     (if \<not> reverse then Inr (price * factor pc)
      else if price = 0 then Inl ZeroDivisionError
      else Inr (factor pc / price))"

text \<open>\<open>math.log(x, 1.0001)\<close> raises \<open>ValueError\<close> unless \<open>x\<close> is positive.\<close>

definition price_to_tick :: "price_converter \<Rightarrow> real \<Rightarrow> bool \<Rightarrow> error + int" where
  "price_to_tick pc price reverse =
     (case price_to_dex pc price reverse of
        Inl e \<Rightarrow> Inl e
      | Inr dex \<Rightarrow>
          if dex \<le> 0 then Inl ValueError
          else Inr (py_int (log (10001 / 10000) dex)))"

section \<open>Notions used in the statements\<close>

text \<open>
  \<open>update_liquidity\<close> is the only code that assigns \<open>liquidity\<close> and the two cached edge
  amounts, and it assigns them together: in every position the program builds, the edges are
  the ones computed from the liquidity.
\<close>

definition edges_consistent :: "position_instance \<Rightarrow> bool" where
  "edges_consistent p =
     (amount0_edge p = py_int (liquidity p * (low_price_sqrt_r p - high_price_sqrt_r p))
      \<and> amount1_edge p = py_int (liquidity p * (high_price_sqrt p - low_price_sqrt p)))"

text \<open>
  What \<open>mint\<close> establishes and every operation keeps: each position is registered under its
  own token id with consistent edges, and the keys of \<open>valid_positions\<close> are distinct keys of
  \<open>positions\<close>.
\<close>

definition registry_ok :: "pool_simulation \<Rightarrow> bool" where
  "registry_ok st =
     ((\<forall>k p. positions st k = Some p \<longrightarrow> token_id p = k \<and> edges_consistent p)
      \<and> distinct (valid_positions st)
      \<and> set (valid_positions st) \<subseteq> dom (positions st))"

text \<open>
  The pair the loop of \<open>run\<close> builds for an event: its timestamp, then \<open>1\<close> for a swap event
  and \<open>0\<close> for a decision event. \<open>dispatch_le\<close> is the loop's comparison on these pairs.
\<close>

fun call_key :: "'a call \<Rightarrow> int \<times> int" where
  "call_key (OnSwap e) = (case ev_timestamp e of Some t \<Rightarrow> t | None \<Rightarrow> 0, 1)"
| "call_key (OnTime d) = (case tm_timestamp d of Some t \<Rightarrow> t | None \<Rightarrow> 0, 0)"

definition dispatch_le :: "'a call \<Rightarrow> 'a call \<Rightarrow> bool" where
  "dispatch_le x y = py_tuple_le (call_key x) (call_key y)"

section \<open>Concrete inputs\<close>

text \<open>
  Swap and decision events at a given timestamp, and a pool whose first swap event puts the
  square root of the price at \<open>1 + 2^-9\<close>, inside the tick range \<open>[0, 60]\<close>. \<open>pool_a a0 a1\<close>
  starts with the wallet \<open>(a0, a1)\<close>; \<open>pool_b a0 a1\<close> is that pool after
  \<open>mint(0, 60, 0, 1000)\<close>, and \<open>pos_a\<close> is the position this mint returns.
\<close>

definition swap_at :: "int \<Rightarrow> swap_event" where
  "swap_at t = \<lparr>ev_sqrtPriceX96 = 2 ^ 96, ev_tick = 0, ev_blockNumber = t,
                ev_liquidity = 1000000, ev_timestamp = Some t\<rparr>"

definition time_at :: "int \<Rightarrow> unit time_event" where
  "time_at t = \<lparr>tm_timestamp = Some t, tm_data = ()\<rparr>"

definition ev_a :: swap_event where
  "ev_a = \<lparr>ev_sqrtPriceX96 = 2 ^ 96 + 2 ^ 87, ev_tick = 39, ev_blockNumber = 1,
           ev_liquidity = 1000000, ev_timestamp = Some 10\<rparr>"

definition pool_a :: "int \<Rightarrow> int \<Rightarrow> pool_simulation" where
  "pool_a a0 a1 = on_swap (PoolSimiulation a0 a1 8 18 3000) ev_a"

definition pool_b :: "int \<Rightarrow> int \<Rightarrow> pool_simulation" where
  "pool_b a0 a1 = snd (mint (pool_a a0 a1) 0 60 0 1000)"

definition pos_a :: position_instance where
  "pos_a = \<lparr>liquidity = 512000, tick_lower = 0, tick_upper = 60,
            amount0_edge = 1533, amount1_edge = 1538,
            fee_rate = 3000, fee0 = 0, fee1 = 0, token_id = 1,
            balance = [PositionBalanceLog 1 10 535 1000 0 0],
            history = [LiquidityLog 1 10 512000]\<rparr>"

section \<open>Facts about truncation\<close>


section \<open>The sizing algorithm\<close>





text \<open>
  Inside the range, strictly below the upper bound, the algorithm returns the smaller
  candidate; the side that binds keeps the caller's amount and the other side is recomputed
  from the chosen liquidity.
\<close>

lemma cal_liquidity_sqrt_in_range:
  assumes "0 < sl" and "sl < sp" and "sp < su" and "amt0 \<noteq> 0 \<or> amt1 \<noteq> 0"
  defines "l0 \<equiv> (if amt0 \<noteq> 0 then Fin (py_int (real_of_int amt0 * su * sp / (su - sp))) else Inf)"
    and "l1 \<equiv> (if amt1 \<noteq> 0 then Fin (py_int (real_of_int amt1 / (sp - sl))) else Inf)"
  shows "\<exists>l. liq_min l0 l1 = Fin l \<and>
           cal_liquidity_sqrt sp sl su amt0 amt1 =
             (if liq_less l0 l1 then Inr (l, amt0, py_int (real_of_int l * (sp - sl)))
              else Inr (l, py_int (real_of_int l * (su - sp) / (su * sp)), amt1))"
  using assms
  by (auto simp: cal_liquidity_sqrt_def Let_def algebra_simps min_def)

text \<open>
  Claim C1, at the upper edge of the range. The claim covers \<open>price = upper\<close>, as the
  docstring's case 2 (\<open>lower < cprice <= upper\<close>) does, and promises the smaller candidate
  there. With \<open>amt0\<close> non-zero the code divides by \<open>sqrt upper - sqrt price = 0\<close> and raises
  \<open>ZeroDivisionError\<close>: no liquidity is returned.
\<close>

theorem cal_liquidity_at_upper_edge_raises:
  "cal_liquidity_sqrt 2 1 2 1 1 = Inl ZeroDivisionError
   \<and> cal_liquidity 4 4 1 1 1 = Inl ZeroDivisionError"
  by (simp add: cal_liquidity_sqrt_def cal_liquidity_def)

section \<open>Closing a position\<close>

text \<open>
  Claim C10. In \<open>PositionInstance.decrease_liquidity\<close> an explicit \<open>liquidity\<close> of \<open>0\<close> behaves
  as an absent one for every \<open>pct\<close>; with the default \<open>pct = 1\<close> the call then succeeds and
  leaves the position with liquidity zero, so the whole liquidity is removed; and an absent
  \<open>liquidity\<close> with \<open>pct = 0\<close> is rejected by the assertion.
\<close>

theorem decrease_liquidity_zero_is_none:
  "position_decrease_liquidity p sp (Some 0) pct = position_decrease_liquidity p sp None pct
   \<and> (\<exists>r p'. position_decrease_liquidity p sp (Some 0) 1 = Inr (r, p') \<and> liquidity p' = 0)
   \<and> position_decrease_liquidity p sp None 0 = Inl AssertionError"
  by (simp add: position_decrease_liquidity_def falsy_liquidity_def update_liquidity_def Let_def)

section \<open>PriceConverter\<close>

text \<open>
  What the code computes: the logarithm truncated toward zero, which is its floor for a pool
  price of at least one and its ceiling below one.
\<close>

lemma price_to_tick_truncates:
  assumes "price_to_dex pc price reverse = Inr dex" and "0 < dex"
  shows "price_to_tick pc price reverse =
           Inr (if 1 \<le> dex then \<lfloor>log (10001 / 10000) dex\<rfloor>
                else \<lceil>log (10001 / 10000) dex\<rceil>)"
proof -
  have "0 \<le> log (10001 / 10000) dex \<longleftrightarrow> 1 \<le> dex"
    using assms(2) by (simp add: zero_le_log_cancel_iff)
  then show ?thesis
    using assms by (simp add: price_to_tick_def py_int_def)
qed

text \<open>
  Claim C5, for a pool price below one. \<open>price_to_tick\<close> truncates the logarithm with
  \<open>int\<close>, toward zero. With equal decimals and the price \<open>0.99995\<close> the logarithm to base
  \<open>1.0001\<close> lies strictly between \<open>-1\<close> and \<open>0\<close>: the code returns \<open>0\<close>, the floor is \<open>-1\<close>.
\<close>

theorem price_to_tick_below_one:
  "price_to_tick (PriceConverter 0 0) (99995 / 100000) False = Inr 0
   \<and> \<lfloor>log (10001 / 10000) (99995 / 100000 :: real)\<rfloor> = - 1"
proof -
  let ?b = "10001 / 10000 :: real"
  let ?x = "99995 / 100000 :: real"
  have lt0: "log ?b ?x < 0" by simp
  have "?b powr (- 1) < ?x" by (simp add: powr_minus)
  then have gt: "- 1 < log ?b ?x"
    by (subst less_log_iff) simp_all
  have fl: "\<lfloor>log ?b ?x\<rfloor> = - 1" using lt0 gt by (simp add: floor_eq_iff)
  have ce: "\<lceil>log ?b ?x\<rceil> = 0" using lt0 gt by (simp add: ceiling_eq_iff)
  show ?thesis using lt0 fl ce
    by (simp add: price_to_tick_def price_to_dex_def PriceConverter_def py_int_def)
qed

section \<open>Facts about positions and the registry\<close>

lemma update_liquidity_fields:
  "liquidity (update_liquidity p l) = l"
  "history (update_liquidity p l) = history p"
  "balance (update_liquidity p l) = balance p"
  "token_id (update_liquidity p l) = token_id p"
  "fee0 (update_liquidity p l) = fee0 p"
  "fee1 (update_liquidity p l) = fee1 p"
  "tick_lower (update_liquidity p l) = tick_lower p"
  "tick_upper (update_liquidity p l) = tick_upper p"
  by (simp_all add: update_liquidity_def)

lemma update_liquidity_twice: "update_liquidity (update_liquidity p a) b = update_liquidity p b"
  by (simp add: update_liquidity_def low_price_sqrt_def high_price_sqrt_def
        low_price_sqrt_r_def high_price_sqrt_r_def)

lemma update_liquidity_same: "edges_consistent p \<Longrightarrow> update_liquidity p (liquidity p) = p"
  by (simp add: edges_consistent_def update_liquidity_def)

lemma accrue_logs:
  "history (accrue former st p) = history p"
  "\<exists>b. balance (accrue former st p) = balance p @ [b]"
  by (simp_all add: accrue_def position_swap_def log_balance_def Let_def)

lemma on_swap_positions_other:
  "k \<notin> set ks \<Longrightarrow> on_swap_positions former st ks m k = m k"
  by (induction ks arbitrary: m) (auto split: option.splits)

lemma on_swap_positions_member:
  "distinct ks \<Longrightarrow> k \<in> set ks \<Longrightarrow> m k = Some p \<Longrightarrow>
     on_swap_positions former st ks m k = Some (accrue former st p)"
proof (induction ks arbitrary: m)
  case Nil
  then show ?case by simp
next
  case (Cons a ks)
  show ?case
  proof (cases "a = k")
    case True
    with Cons.prems show ?thesis by (simp add: on_swap_positions_other)
  next
    case False
    with Cons.prems have "k \<in> set ks" "distinct ks" by auto
    moreover have "(case m a of None \<Rightarrow> m | Some q \<Rightarrow> m(a \<mapsto> accrue former st q)) k = Some p"
      using False Cons.prems(3) by (auto split: option.splits)
    ultimately show ?thesis using Cons.IH by simp
  qed
qed

lemma decrease_all:
  assumes "positions st tid = Some p" and "token_id p = tid" and "0 < liquidity p"
  shows "\<exists>q x y st'. decrease_liquidity st tid None 1 = (Inr (q, x, y), st')
           \<and> positions st' tid = Some q
           \<and> liquidity q = 0
           \<and> tid \<notin> set (valid_positions st')
           \<and> dom (positions st') = dom (positions st)"
  using assms
  by (auto simp: decrease_liquidity_def position_decrease_liquidity_def falsy_liquidity_def
        Let_def update_liquidity_fields log_history_def record_wallet_def dict_pop_key_def)

section \<open>The registry invariant\<close>

lemma edges_consistent_update: "edges_consistent (update_liquidity p l)"
  by (simp add: edges_consistent_def update_liquidity_def low_price_sqrt_def
        high_price_sqrt_def low_price_sqrt_r_def high_price_sqrt_r_def)

lemma edges_consistent_cong:
  "liquidity q = liquidity p \<Longrightarrow> tick_lower q = tick_lower p \<Longrightarrow> tick_upper q = tick_upper p
     \<Longrightarrow> amount0_edge q = amount0_edge p \<Longrightarrow> amount1_edge q = amount1_edge p
     \<Longrightarrow> edges_consistent p \<Longrightarrow> edges_consistent q"
  by (simp add: edges_consistent_def low_price_sqrt_def
        high_price_sqrt_def low_price_sqrt_r_def high_price_sqrt_r_def)

lemma edges_consistent_logs:
  "edges_consistent p \<Longrightarrow> edges_consistent (log_history p b t)"
  "edges_consistent p \<Longrightarrow> edges_consistent (log_balance p b t sp f0 f1)"
  "edges_consistent p \<Longrightarrow> edges_consistent (snd (position_collect p))"
  "edges_consistent p \<Longrightarrow> edges_consistent (accrue former st p)"
  by (erule edges_consistent_cong [rotated -1];
      simp add: log_history_def log_balance_def position_collect_def accrue_def
        position_swap_def Let_def)+

lemma token_id_logs:
  "token_id (log_history p b t) = token_id p"
  "token_id (log_balance p b t sp f0 f1) = token_id p"
  "token_id (snd (position_collect p)) = token_id p"
  "token_id (accrue former st p) = token_id p"
  by (simp_all add: log_history_def log_balance_def position_collect_def accrue_def
        position_swap_def Let_def)

lemma registry_ok_init: "registry_ok (PoolSimiulation a0 a1 d0 d1 f)"
  by (simp add: registry_ok_def PoolSimiulation_def)

lemma registry_ok_mint: "registry_ok st \<Longrightarrow> registry_ok (snd (mint st lo up a0 a1))"
  by (auto simp: registry_ok_def mint_def Let_def next_token_id_def PositionInstance_def
        record_wallet_def dict_set_key_def token_id_logs edges_consistent_logs
        edges_consistent_update update_liquidity_fields
        split: sum.splits prod.splits if_splits)

lemma registry_ok_increase:
  "registry_ok st \<Longrightarrow> registry_ok (snd (increase_liquidity st tid a0 a1))"
  by (auto simp: registry_ok_def increase_liquidity_def position_increase_liquidity_def Let_def
        record_wallet_def dict_set_key_def token_id_logs edges_consistent_logs
        edges_consistent_update update_liquidity_fields
        split: sum.splits prod.splits if_splits option.splits)

lemma registry_ok_decrease:
  "registry_ok st \<Longrightarrow> registry_ok (snd (decrease_liquidity st tid lq pct))"
  by (auto simp: registry_ok_def decrease_liquidity_def position_decrease_liquidity_def Let_def
        record_wallet_def dict_pop_key_def token_id_logs edges_consistent_logs
        edges_consistent_update update_liquidity_fields distinct_removeAll
        split: sum.splits prod.splits if_splits option.splits)

lemma registry_ok_collect: "registry_ok st \<Longrightarrow> registry_ok (snd (collect st tid))"
  using edges_consistent_logs(3)
  by (auto simp: registry_ok_def collect_def Let_def position_collect_def
        record_wallet_def token_id_logs edges_consistent_logs
        split: sum.splits prod.splits if_splits option.splits)

lemma registry_ok_swap: "registry_ok st \<Longrightarrow> registry_ok (snd (swap st i a pct))"
  by (auto simp: registry_ok_def swap_def Let_def)

lemma on_swap_positions_cases:
  "on_swap_positions former st ks m k = Some q \<Longrightarrow>
     \<exists>p. m k = Some p \<and> token_id q = token_id p \<and> (edges_consistent p \<longrightarrow> edges_consistent q)"
proof (induction ks arbitrary: m)
  case Nil
  then show ?case by simp
next
  case (Cons a ks)
  from Cons.IH [OF Cons.prems [simplified]]
  show ?case
    by (auto simp: token_id_logs edges_consistent_logs split: option.splits if_splits)
qed

lemma on_swap_positions_dom: "dom (on_swap_positions former st ks m) = dom m"
  by (induction ks arbitrary: m) (auto split: option.splits)

lemma registry_ok_on_swap: "registry_ok st \<Longrightarrow> registry_ok (on_swap st ev)"
  unfolding registry_ok_def
  by (auto simp: on_swap_def Let_def record_wallet_def on_swap_positions_dom
        dest!: on_swap_positions_cases)

section \<open>The concrete pool\<close>

lemma pool_a_fields:
  "amount0 (pool_a a0 a1) = a0" "amount1 (pool_a a0 a1) = a1"
  "sqrt_price (pool_a a0 a1) = 513 / 512" "fee (pool_a a0 a1) = 3000"
  "priv_next_token_id (pool_a a0 a1) = 0" "positions (pool_a a0 a1) = Map.empty"
  "valid_positions (pool_a a0 a1) = []" "block_number (pool_a a0 a1) = 1"
  "timestamp (pool_a a0 a1) = 10" "L (pool_a a0 a1) = 1000000"
  by (simp_all add: pool_a_def ev_a_def on_swap_def PoolSimiulation_def record_wallet_def
        PRICE_FACTOR_def Let_def)

lemma cal_a:
  "cal_liquidity_sqrt (513 / 512) 1 ((10001 / 10000) ^ 30) 0 1000 = Inr (512000, 535, 1000)"
  by (simp add: cal_liquidity_sqrt_def Let_def py_int_def power_divide)

lemma edges_a:
  "py_int (512000 * (1 / 1 - 1 / (10001 / 10000) ^ 30)) = 1533"
  "py_int (512000 * ((10001 / 10000) ^ 30 - 1)) = 1538"
  "py_int (512000 * (1 / (513 / 512) - 1 / (10001 / 10000) ^ 30)) = 535"
  "py_int (512000 * (513 / 512 - 1)) = 1000"
  "(513 / 512 :: real) < (10001 / 10000) ^ 30"
  by (simp_all add: py_int_def power_divide)

lemma edges_a2:
  "py_int (1024000 * (1 / 1 - 1 / (10001 / 10000) ^ 30)) = 3067"
  "py_int (1024000 * ((10001 / 10000) ^ 30 - 1)) = 3076"
  "py_int (1024000 * (1 / (513 / 512) - 1 / (10001 / 10000) ^ 30)) = 1071"
  "py_int (1024000 * (513 / 512 - 1)) = 2000"
  by (simp_all add: py_int_def power_divide)

lemma init_a:
  "PositionInstance 512000 0 60 3000 1 = Inr (pos_a\<lparr>balance := [], history := []\<rparr>)"
  using edges_a
  by (simp add: PositionInstance_def update_liquidity_def pos_a_def low_price_sqrt_def
        high_price_sqrt_def low_price_sqrt_r_def high_price_sqrt_r_def)

lemma amounts_a:
  "liquidity p = 512000 \<Longrightarrow> tick_lower p = 0 \<Longrightarrow> tick_upper p = 60 \<Longrightarrow>
     amount0_psqrt p (513 / 512) = 535 \<and> amount1_psqrt p (513 / 512) = 1000"
  using edges_a
  by (simp add: amount0_psqrt_def amount1_psqrt_def low_price_sqrt_def
        high_price_sqrt_def low_price_sqrt_r_def high_price_sqrt_r_def)

lemma pos_a_consistent: "edges_consistent pos_a"
  using edges_a
  by (simp add: edges_consistent_def pos_a_def low_price_sqrt_def
        high_price_sqrt_def low_price_sqrt_r_def high_price_sqrt_r_def)

lemma mint_a:
  assumes "0 \<le> a0" and "1000 \<le> a1"
  shows "mint (pool_a a0 a1) 0 60 0 1000 =
           (Inr (pos_a, 535, 1000),
            (pool_a a0 a1)\<lparr>amount0 := a0 - 535, amount1 := a1 - 1000,
               priv_next_token_id := 1, valid_positions := [1],
               positions := [1 \<mapsto> pos_a],
               wallet_logs := wallet_logs (pool_a a0 a1)
                                @ [WalletLog 1 10 (a0 - 535) (a1 - 1000)]\<rparr>)"
proof -
  have am: "amount0_psqrt (pos_a\<lparr>balance := [], history := []\<rparr>) (513 / 512) = 535"
     "amount1_psqrt (pos_a\<lparr>balance := [], history := []\<rparr>) (513 / 512) = 1000"
     "amount0_psqrt (log_history (pos_a\<lparr>balance := [], history := []\<rparr>) 1 10) (513 / 512) = 535"
     "amount1_psqrt (log_history (pos_a\<lparr>balance := [], history := []\<rparr>) 1 10) (513 / 512) = 1000"
    using amounts_a by (simp_all add: pos_a_def log_history_def)
  show ?thesis
    using assms
    by (simp add: mint_def pool_a_fields cal_a init_a am Let_def next_token_id_def
          log_balance_def dict_set_key_def record_wallet_def)
       (simp add: pos_a_def log_history_def)
qed

lemma pool_b_fields:
  assumes "0 \<le> a0" and "1000 \<le> a1"
  shows "amount0 (pool_b a0 a1) = a0 - 535" "amount1 (pool_b a0 a1) = a1 - 1000"
    "sqrt_price (pool_b a0 a1) = 513 / 512"
    "positions (pool_b a0 a1) 1 = Some pos_a"
    "valid_positions (pool_b a0 a1) = [1]"
  using mint_a [OF assms] by (simp_all add: pool_b_def pool_a_fields)

lemma increase_a:
  "position_increase_liquidity pos_a (513 / 512) 0 1000 =
     Inr ((512000, 536, 1000), update_liquidity pos_a 1024000)"
proof -
  have lh: "low_price_sqrt pos_a = 1" "high_price_sqrt pos_a = (10001 / 10000) ^ 30"
    by (simp_all add: low_price_sqrt_def high_price_sqrt_def pos_a_def)
  have before: "amount0_psqrt pos_a (513 / 512) = 535" "amount1_psqrt pos_a (513 / 512) = 1000"
    using amounts_a [of pos_a] by (simp_all add: pos_a_def)
  have after: "amount0_psqrt (update_liquidity pos_a 1024000) (513 / 512) = 1071"
    "amount1_psqrt (update_liquidity pos_a 1024000) (513 / 512) = 2000"
    using edges_a2 edges_a(5)
    by (simp_all add: amount0_psqrt_def amount1_psqrt_def update_liquidity_def low_price_sqrt_def
          high_price_sqrt_def low_price_sqrt_r_def high_price_sqrt_r_def pos_a_def)
  have l: "liquidity pos_a = 512000" by (simp add: pos_a_def)
  show ?thesis
    by (simp add: position_increase_liquidity_def lh cal_a before after l Let_def)
qed


section \<open>Closing a position through the simulator\<close>

text \<open>
  Claim C9. For a position registered under its own token id with positive liquidity,
  \<open>decrease_liquidity(token_id, pct=1)\<close> succeeds; afterwards \<open>is_active\<close> of the position is
  false at every square-root price, the token id is no key of \<open>valid_positions\<close>, and the
  position is still in the registry \<open>positions\<close>, which has the keys it had.
\<close>

theorem decrease_all_closes_position:
  assumes "positions st tid = Some p" and "token_id p = tid" and "0 < liquidity p"
  shows "\<exists>q x y st'. decrease_liquidity st tid None 1 = (Inr (q, x, y), st')
           \<and> positions st' tid = Some q
           \<and> (\<forall>sp. \<not> is_active q sp)
           \<and> tid \<notin> set (valid_positions st')
           \<and> dom (positions st') = dom (positions st)"
proof -
  obtain q x y st' where r: "decrease_liquidity st tid None 1 = (Inr (q, x, y), st')"
      "positions st' tid = Some q" "liquidity q = 0" "tid \<notin> set (valid_positions st')"
      "dom (positions st') = dom (positions st)"
    using decrease_all [OF assms] by blast
  have "\<forall>sp. \<not> is_active q sp" using r(3) by (simp add: is_active_def)
  with r show ?thesis by blast
qed

theorem decrease_all_closes_position_witness:
  "\<exists>q x y st'. decrease_liquidity (pool_b 1000 1000) 1 None 1 = (Inr (q, x, y), st')
      \<and> positions st' 1 = Some q
      \<and> (\<forall>sp. \<not> is_active q sp)
      \<and> 1 \<notin> set (valid_positions st')"
proof -
  have h1: "positions (pool_b 1000 1000) 1 = Some pos_a" by (simp add: pool_b_fields)
  have h2: "token_id pos_a = 1" by (simp add: pos_a_def)
  have h3: "0 < liquidity pos_a" by (simp add: pos_a_def)
  show ?thesis
    using decrease_all_closes_position [OF h1 h2 h3] by blast
qed

section \<open>Increasing liquidity without funds\<close>

text \<open>
  Claim C4. When the deposit computed by \<open>Position.increase_liquidity\<close> exceeds the wallet
  on either token, \<open>increase_liquidity\<close> raises the assertion error. In the state it leaves,
  the wallet balances are the ones before the call and the position has the liquidity it had
  before the call; the edges are recomputed from that liquidity, so for a position whose
  edges were consistent the whole state is the state before the call.
\<close>

theorem increase_liquidity_rollback:
  assumes "positions st tid = Some p"
    and "position_increase_liquidity p (sqrt_price st) a0 a1 = Inr ((l, amt0, amt1), p1)"
    and "amount0 st < amt0 \<or> amount1 st < amt1"
  shows "\<exists>st' p'. increase_liquidity st tid a0 a1 = (Inl AssertionError, st')
           \<and> amount0 st' = amount0 st \<and> amount1 st' = amount1 st
           \<and> positions st' tid = Some p' \<and> liquidity p' = liquidity p
           \<and> (edges_consistent p \<longrightarrow> st' = st)"
proof -
  have "p1 = update_liquidity p (liquidity p + real_of_int l)"
    using assms(2)
    by (auto simp: position_increase_liquidity_def Let_def split: sum.splits prod.splits)
  then have rb: "update_liquidity p1 (liquidity p) = update_liquidity p (liquidity p)"
    by (simp add: update_liquidity_twice)
  have res: "increase_liquidity st tid a0 a1 =
           (Inl AssertionError,
            st\<lparr>positions := (positions st)(tid \<mapsto> update_liquidity p (liquidity p))\<rparr>)"
    using assms rb by (auto simp: increase_liquidity_def Let_def)
  have same: "edges_consistent p \<longrightarrow>
          st\<lparr>positions := (positions st)(tid \<mapsto> update_liquidity p (liquidity p))\<rparr> = st"
    using assms(1) by (simp add: update_liquidity_same fun_upd_idem)
  show ?thesis
    using res same by (simp add: update_liquidity_fields)
qed

theorem increase_liquidity_rollback_witness:
  "increase_liquidity (pool_b 1000 1000) 1 0 1000 = (Inl AssertionError, pool_b 1000 1000)"
proof -
  have h1: "positions (pool_b 1000 1000) 1 = Some pos_a" by (simp add: pool_b_fields)
  have h2: "position_increase_liquidity pos_a (sqrt_price (pool_b 1000 1000)) 0 1000 =
              Inr ((512000, 536, 1000), update_liquidity pos_a 1024000)"
    by (simp add: pool_b_fields increase_a)
  have h3: "amount0 (pool_b 1000 1000) < 536 \<or> amount1 (pool_b 1000 1000) < 1000"
    by (simp add: pool_b_fields)
  show ?thesis
    using increase_liquidity_rollback [OF h1 h2 h3] pos_a_consistent by auto
qed

section \<open>The wallet under mint\<close>

text \<open>
  Claim C3, for \<open>mint\<close>. The wallet holds \<open>(0, 1000)\<close> and the price is inside the range
  \<open>[0, 60]\<close>. \<open>mint(0, 60, 0, 1000)\<close> passes both assertions, which compare the wallet with
  the requested amounts \<open>0\<close> and \<open>1000\<close>; the liquidity is sized from \<open>amount1\<close> alone, the
  position owes \<open>535\<close> of token0 at the current price, and the call returns normally with the
  wallet at \<open>(- 535, 0)\<close>. \<open>increase_liquidity\<close>, by contrast, compares the wallet with the
  recomputed amounts.
\<close>

theorem mint_overdraws_wallet:
  "amount0 (pool_a 0 1000) = 0 \<and> amount1 (pool_a 0 1000) = 1000
   \<and> (\<exists>q st'. mint (pool_a 0 1000) 0 60 0 1000 = (Inr (q, 535, 1000), st')
          \<and> amount0 st' = - 535 \<and> amount1 st' = 0)"
  using mint_a [of 0 1000] by (simp add: pool_a_fields)

section \<open>The two logs of a position\<close>

text \<open>
  \<open>collect\<close> on the position of \<open>pool_b\<close> appends a balance entry and leaves the history
  log as it was: not every operation appends to both logs.
\<close>

theorem collect_appends_no_history:
  "positions (pool_b 10000 10000) 1 = Some pos_a
   \<and> (\<exists>r st' q. collect (pool_b 10000 10000) 1 = (Inr r, st')
          \<and> positions st' 1 = Some q
          \<and> history q = history pos_a \<and> length (balance q) = length (balance pos_a) + 1)"
  by (simp add: collect_def pool_b_fields position_collect_def log_balance_def record_wallet_def
        Let_def)

text \<open>
  Claim C8, as the code has it. \<open>mint\<close> leaves the new position with exactly one history
  entry and one balance entry, and \<open>increase_liquidity\<close> appends exactly one entry to each
  log. \<open>decrease_liquidity\<close> appends exactly one history entry. \<open>collect\<close>, and \<open>on_swap\<close>
  for every position in \<open>valid_positions\<close>, append exactly one balance entry and leave the
  history log unchanged: the history log records liquidity, which they do not change.
\<close>

theorem position_logs_per_operation:
  "(mint st lo up a0 a1 = (Inr (q, x, y), st') \<longrightarrow>
      positions st' (token_id q) = Some q \<and> length (history q) = 1 \<and> length (balance q) = 1)
   \<and> (positions st tid = Some p \<and> increase_liquidity st tid a0 a1 = (Inr (q, x, y), st') \<longrightarrow>
      positions st' tid = Some q \<and> (\<exists>h. history q = history p @ [h])
        \<and> (\<exists>b. balance q = balance p @ [b]))
   \<and> (positions st tid = Some p \<and> decrease_liquidity st tid lq pct = (Inr (q, x, y), st') \<longrightarrow>
      positions st' tid = Some q \<and> (\<exists>h. history q = history p @ [h]))
   \<and> (positions st tid = Some p \<longrightarrow>
      (\<exists>r st'' q' b. collect st tid = (Inr r, st'') \<and> positions st'' tid = Some q'
         \<and> history q' = history p \<and> balance q' = balance p @ [b]))
   \<and> (positions st tid = Some p \<and> tid \<in> set (valid_positions st)
        \<and> distinct (valid_positions st) \<longrightarrow>
      (\<exists>q' b. positions (on_swap st ev) tid = Some q' \<and> history q' = history p
         \<and> balance q' = balance p @ [b]))"
proof (intro conjI impI)
  assume "mint st lo up a0 a1 = (Inr (q, x, y), st')"
  then show "positions st' (token_id q) = Some q" "length (history q) = 1"
      "length (balance q) = 1"
    by (auto simp: mint_def Let_def next_token_id_def PositionInstance_def
          update_liquidity_fields log_history_def log_balance_def record_wallet_def
          split: sum.splits prod.splits if_splits)
next
  assume "positions st tid = Some p \<and> increase_liquidity st tid a0 a1 = (Inr (q, x, y), st')"
  then show "positions st' tid = Some q" "\<exists>h. history q = history p @ [h]"
      "\<exists>b. balance q = balance p @ [b]"
    by (auto simp: increase_liquidity_def position_increase_liquidity_def Let_def
          update_liquidity_fields log_history_def log_balance_def record_wallet_def
          split: sum.splits prod.splits if_splits)
next
  assume "positions st tid = Some p \<and> decrease_liquidity st tid lq pct = (Inr (q, x, y), st')"
  then show "positions st' tid = Some q" "\<exists>h. history q = history p @ [h]"
    by (auto simp: decrease_liquidity_def position_decrease_liquidity_def Let_def
          update_liquidity_fields log_history_def record_wallet_def
          split: sum.splits prod.splits if_splits)
next
  assume "positions st tid = Some p"
  then show "\<exists>r st'' q' b. collect st tid = (Inr r, st'') \<and> positions st'' tid = Some q'
         \<and> history q' = history p \<and> balance q' = balance p @ [b]"
    by (auto simp: collect_def position_collect_def Let_def log_balance_def record_wallet_def)
next
  assume "positions st tid = Some p \<and> tid \<in> set (valid_positions st)
        \<and> distinct (valid_positions st)"
  then show "\<exists>q' b. positions (on_swap st ev) tid = Some q' \<and> history q' = history p
         \<and> balance q' = balance p @ [b]"
    using accrue_logs
    by (auto simp: on_swap_def Let_def record_wallet_def on_swap_positions_member)
qed

lemma increase_b:
  "\<exists>q st'. increase_liquidity (pool_b 10000 10000) 1 0 1000 = (Inr (q, 536, 1000), st')"
  by (simp add: increase_liquidity_def pool_b_fields increase_a Let_def)

theorem position_logs_per_operation_witness:
  "(\<exists>q x y st'. mint (pool_a 10000 10000) 0 60 0 1000 = (Inr (q, x, y), st')
        \<and> length (history q) = 1 \<and> length (balance q) = 1)
   \<and> (\<exists>q x y st'. increase_liquidity (pool_b 10000 10000) 1 0 1000 = (Inr (q, x, y), st')
        \<and> length (history q) = 2 \<and> length (balance q) = 2)
   \<and> (\<exists>q x y st'. decrease_liquidity (pool_b 10000 10000) 1 None 1 = (Inr (q, x, y), st')
        \<and> length (history q) = 2)
   \<and> (\<exists>r st' q. collect (pool_b 10000 10000) 1 = (Inr r, st') \<and> positions st' 1 = Some q
        \<and> length (history q) = 1 \<and> length (balance q) = 2)
   \<and> (\<exists>q. positions (on_swap (pool_b 10000 10000) (swap_at 20)) 1 = Some q
        \<and> length (history q) = 1 \<and> length (balance q) = 2)"
proof -
  let ?b = "pool_b 10000 10000"
  have pb: "positions ?b 1 = Some pos_a" "valid_positions ?b = [1]"
    by (simp_all add: pool_b_fields)
  have logs: "length (history pos_a) = 1" "length (balance pos_a) = 1"
    by (simp_all add: pos_a_def)
  obtain q1 st1 where m: "mint (pool_a 10000 10000) 0 60 0 1000 = (Inr (q1, 535, 1000), st1)"
    using mint_a [of 10000 10000] by simp
  obtain q2 st2 where i: "increase_liquidity ?b 1 0 1000 = (Inr (q2, 536, 1000), st2)"
    using increase_b by blast
  obtain q3 x3 y3 st3 where d: "decrease_liquidity ?b 1 None 1 = (Inr (q3, x3, y3), st3)"
    using decrease_all [OF pb(1)] by (auto simp: pos_a_def)
  note T = position_logs_per_operation
  have a: "length (history q1) = 1 \<and> length (balance q1) = 1"
    using T [THEN conjunct1, rule_format, OF m] by simp
  have b: "length (history q2) = 2 \<and> length (balance q2) = 2"
    using T [THEN conjunct2, THEN conjunct1, rule_format, OF conjI [OF pb(1) i]] logs
    by auto
  have c: "length (history q3) = 2"
    using T [THEN conjunct2, THEN conjunct2, THEN conjunct1, rule_format,
             OF conjI [OF pb(1) d]] logs
    by auto
  have e: "\<exists>r st' q. collect ?b 1 = (Inr r, st') \<and> positions st' 1 = Some q
        \<and> length (history q) = 1 \<and> length (balance q) = 2"
    using T [THEN conjunct2, THEN conjunct2, THEN conjunct2, THEN conjunct1, rule_format,
             OF pb(1)] logs
    by fastforce
  have v: "positions ?b 1 = Some pos_a \<and> 1 \<in> set (valid_positions ?b)
             \<and> distinct (valid_positions ?b)"
    using pb by simp
  have f: "\<exists>q. positions (on_swap ?b (swap_at 20)) 1 = Some q
        \<and> length (history q) = 1 \<and> length (balance q) = 2"
    using T [THEN conjunct2, THEN conjunct2, THEN conjunct2, THEN conjunct2, rule_format,
             OF v, of "swap_at 20"] logs
    by fastforce
  show ?thesis using m i d a b c e f by blast
qed

section \<open>The wallet's own trade\<close>




section \<open>The order of dispatch\<close>

lemma py_tuple_le_iff: "py_tuple_le (a, b) (c, d) \<longleftrightarrow> a < c \<or> (a = c \<and> b \<le> d)"
  by (auto simp: py_tuple_le_def)

lemma dispatch_le_trans: "dispatch_le x y \<Longrightarrow> dispatch_le y z \<Longrightarrow> dispatch_le x z"
  by (cases "call_key x"; cases "call_key y"; cases "call_key z")
     (auto simp: dispatch_le_def py_tuple_le_iff)

lemma sorted_wrt_snoc:
  "sorted_wrt R (xs @ [x]) \<longleftrightarrow> sorted_wrt R xs \<and> (\<forall>y\<in>set xs. R y x)"
  by (auto simp: sorted_wrt_append)

lemma drain_time:
  assumes "sorted_wrt dispatch_le tr"
    and "sorted (map (\<lambda>d. fst (call_key (OnTime d))) ds)"
    and "\<forall>x\<in>set tr. \<forall>d\<in>set ds. dispatch_le x (OnTime d)"
  shows "\<exists>tr'. drain trace_time ds tr = Inr tr' \<and> sorted_wrt dispatch_le tr'"
  using assms
proof (induction ds arbitrary: tr)
  case Nil
  then show ?case by simp
next
  case (Cons d ds)
  have "sorted_wrt dispatch_le (tr @ [OnTime d])"
    using Cons.prems by (simp add: sorted_wrt_snoc)
  moreover have "\<forall>x\<in>set (tr @ [OnTime d]). \<forall>d'\<in>set ds. dispatch_le x (OnTime d')"
    using Cons.prems by (auto simp: dispatch_le_def py_tuple_le_iff)
  moreover have "sorted (map (\<lambda>d. fst (call_key (OnTime d))) ds)"
    using Cons.prems by simp
  ultimately show ?case
    using Cons.IH [of "tr @ [OnTime d]"] by (simp add: trace_time_def)
qed

lemma drain_swap:
  assumes "sorted_wrt dispatch_le tr"
    and "sorted (map (\<lambda>e. fst (call_key (OnSwap e))) ss)"
    and "\<forall>x\<in>set tr. \<forall>e\<in>set ss. dispatch_le x (OnSwap e)"
  shows "\<exists>tr'. drain trace_swap ss tr = Inr tr' \<and> sorted_wrt dispatch_le tr'"
  using assms
proof (induction ss arbitrary: tr)
  case Nil
  then show ?case by simp
next
  case (Cons e ss)
  have "sorted_wrt dispatch_le (tr @ [OnSwap e])"
    using Cons.prems by (simp add: sorted_wrt_snoc)
  moreover have "\<forall>x\<in>set (tr @ [OnSwap e]). \<forall>e'\<in>set ss. dispatch_le x (OnSwap e')"
    using Cons.prems by (auto simp: dispatch_le_def py_tuple_le_iff)
  moreover have "sorted (map (\<lambda>e. fst (call_key (OnSwap e))) ss)"
    using Cons.prems by simp
  ultimately show ?case
    using Cons.IH [of "tr @ [OnSwap e]"] by (simp add: trace_swap_def)
qed

lemma run_loop_sorted:
  assumes "\<forall>e\<in>set (s # ss). ev_timestamp e \<noteq> None"
    and "\<forall>d\<in>set (d # ds). tm_timestamp d \<noteq> None"
    and "sorted (map (\<lambda>e. fst (call_key (OnSwap e))) (s # ss))"
    and "sorted (map (\<lambda>d. fst (call_key (OnTime d))) (d # ds))"
    and "sorted_wrt dispatch_le tr"
    and "\<forall>x\<in>set tr. dispatch_le x (OnSwap s) \<and> dispatch_le x (OnTime d)"
  shows "\<exists>tr'. run_loop trace_swap trace_time s ss d ds tr = Inr tr' \<and> sorted_wrt dispatch_le tr'"
  using assms
proof (induction "length ss + length ds" arbitrary: s ss d ds tr rule: less_induct)
  case less
  note prems = less.prems
  obtain ts td where ts: "ev_timestamp s = Some ts" and td: "tm_timestamp d = Some td"
    using prems(1,2) by auto
  show ?case
  proof (cases "py_tuple_le (ts, 1) (td, 0)")
    case True
    then have lt: "ts < td" by (simp add: py_tuple_le_iff)
    have srt: "sorted_wrt dispatch_le (tr @ [OnSwap s])"
      using prems(5,6) by (simp add: sorted_wrt_snoc)
    show ?thesis
    proof (cases ss)
      case Nil
      have "\<forall>x\<in>set (tr @ [OnSwap s]). \<forall>d'\<in>set ds. dispatch_le x (OnTime d')"
      proof (intro ballI)
        fix x d' assume x: "x \<in> set (tr @ [OnSwap s])" and d': "d' \<in> set ds"
        have dd: "dispatch_le (OnTime d) (OnTime d')"
          using prems(4) d' by (auto simp: dispatch_le_def py_tuple_le_iff)
        have "dispatch_le x (OnTime d)"
          using x prems(6) lt ts td by (auto simp: dispatch_le_def py_tuple_le_iff)
        then show "dispatch_le x (OnTime d')" using dd dispatch_le_trans by blast
      qed
      moreover have "sorted (map (\<lambda>d. fst (call_key (OnTime d))) ds)"
        using prems(4) by simp
      ultimately obtain tr' where "drain trace_time ds (tr @ [OnSwap s]) = Inr tr'"
          "sorted_wrt dispatch_le tr'"
        using drain_time [OF srt] by blast
      then show ?thesis
        using ts td True Nil
        by (subst run_loop.simps) (simp add: trace_swap_def)
    next
      case (Cons s' rest)
      have a: "\<forall>e\<in>set (s' # rest). ev_timestamp e \<noteq> None"
        using prems(1) Cons by simp
      have b: "sorted (map (\<lambda>e. fst (call_key (OnSwap e))) (s' # rest))"
        using prems(3) Cons by simp
      have ss': "dispatch_le (OnSwap s) (OnSwap s')"
        using prems(3) Cons by (auto simp: dispatch_le_def py_tuple_le_iff)
      have c: "\<forall>x\<in>set (tr @ [OnSwap s]). dispatch_le x (OnSwap s') \<and> dispatch_le x (OnTime d)"
      proof (intro ballI conjI)
        fix x assume x: "x \<in> set (tr @ [OnSwap s])"
        have xs: "dispatch_le x (OnSwap s)"
          using x prems(6) by (auto simp: dispatch_le_def py_tuple_le_iff)
        then show "dispatch_le x (OnSwap s')" using ss' dispatch_le_trans by blast
        show "dispatch_le x (OnTime d)"
          using x prems(6) lt ts td by (auto simp: dispatch_le_def py_tuple_le_iff)
      qed
      have "\<exists>tr'. run_loop trace_swap trace_time s' rest d ds (tr @ [OnSwap s]) = Inr tr'
                \<and> sorted_wrt dispatch_le tr'"
        using less.hyps [OF _ a prems(2) b prems(4) srt c] Cons by simp
      then show ?thesis
        using ts td True Cons
        by (subst run_loop.simps) (simp add: trace_swap_def)
    qed
  next
    case False
    then have ge: "td \<le> ts" by (simp add: py_tuple_le_iff)
    have srt: "sorted_wrt dispatch_le (tr @ [OnTime d])"
      using prems(5,6) by (simp add: sorted_wrt_snoc)
    show ?thesis
    proof (cases ds)
      case Nil
      have "\<forall>x\<in>set (tr @ [OnTime d]). \<forall>e'\<in>set ss. dispatch_le x (OnSwap e')"
      proof (intro ballI)
        fix x e' assume x: "x \<in> set (tr @ [OnTime d])" and e': "e' \<in> set ss"
        have dd: "dispatch_le (OnSwap s) (OnSwap e')"
          using prems(3) e' by (auto simp: dispatch_le_def py_tuple_le_iff)
        have "dispatch_le x (OnSwap s)"
          using x prems(6) ge ts td by (auto simp: dispatch_le_def py_tuple_le_iff)
        then show "dispatch_le x (OnSwap e')" using dd dispatch_le_trans by blast
      qed
      moreover have "sorted (map (\<lambda>e. fst (call_key (OnSwap e))) ss)"
        using prems(3) by simp
      ultimately obtain tr' where "drain trace_swap ss (tr @ [OnTime d]) = Inr tr'"
          "sorted_wrt dispatch_le tr'"
        using drain_swap [OF srt] by blast
      then show ?thesis
        using ts td False Nil
        by (subst run_loop.simps) (simp add: trace_time_def)
    next
      case (Cons d' rest)
      have a: "\<forall>x\<in>set (d' # rest). tm_timestamp x \<noteq> None"
        using prems(2) Cons by simp
      have b: "sorted (map (\<lambda>d. fst (call_key (OnTime d))) (d' # rest))"
        using prems(4) Cons by simp
      have dd': "dispatch_le (OnTime d) (OnTime d')"
        using prems(4) Cons by (auto simp: dispatch_le_def py_tuple_le_iff)
      have c: "\<forall>x\<in>set (tr @ [OnTime d]). dispatch_le x (OnSwap s) \<and> dispatch_le x (OnTime d')"
      proof (intro ballI conjI)
        fix x assume x: "x \<in> set (tr @ [OnTime d])"
        have xs: "dispatch_le x (OnTime d)"
          using x prems(6) by (auto simp: dispatch_le_def py_tuple_le_iff)
        then show "dispatch_le x (OnTime d')" using dd' dispatch_le_trans by blast
        show "dispatch_le x (OnSwap s)"
          using x prems(6) ge ts td by (auto simp: dispatch_le_def py_tuple_le_iff)
      qed
      have "\<exists>tr'. run_loop trace_swap trace_time s ss d' rest (tr @ [OnTime d]) = Inr tr'
                \<and> sorted_wrt dispatch_le tr'"
        using less.hyps [OF _ prems(1) a prems(3) b srt c] Cons by simp
      then show ?thesis
        using ts td False Cons
        by (subst run_loop.simps) (simp add: trace_time_def)
    qed
  qed
qed

text \<open>
  A swap event and a decision event at timestamp \<open>1\<close>: \<open>on_time\<close> is called first, then
  \<open>on_swap\<close>.
\<close>

theorem run_decision_first_on_tie:
  "run trace_swap trace_time [swap_at 1, swap_at 2] [time_at 1, time_at 3] []
     = Inr [OnTime (time_at 1), OnSwap (swap_at 1), OnSwap (swap_at 2)]"
  by (simp add: run_def swap_at_def time_at_def trace_swap_def trace_time_def py_tuple_le_def)

text \<open>
  Claim C2, as the code has it. For two non-empty streams whose records carry timestamps
  and are sorted by them, \<open>run\<close> returns; the timestamps of the calls it makes, in the order
  it makes them, never decrease; and whenever a decision event and a swap event it dispatches
  carry the same timestamp, \<open>on_time\<close> for the decision event is called before \<open>on_swap\<close> for
  the swap event.
\<close>

theorem run_dispatch_order:
  assumes "swaps \<noteq> []" and "time_data \<noteq> []"
    and "\<forall>e\<in>set swaps. ev_timestamp e \<noteq> None"
    and "\<forall>d\<in>set time_data. tm_timestamp d \<noteq> None"
    and "sorted (map (\<lambda>e. fst (call_key (OnSwap e))) swaps)"
    and "sorted (map (\<lambda>d. fst (call_key (OnTime d))) time_data)"
  shows "\<exists>tr. run trace_swap trace_time swaps time_data [] = Inr tr
           \<and> sorted (map (\<lambda>c. fst (call_key c)) tr)
           \<and> (\<forall>i j e d. i < length tr \<and> j < length tr
                 \<and> tr ! i = OnTime d \<and> tr ! j = OnSwap e
                 \<and> tm_timestamp d = ev_timestamp e \<longrightarrow> i < j)"
proof -
  obtain s ss where s: "swaps = s # ss" using assms(1) by (cases swaps) auto
  obtain d ds where d: "time_data = d # ds" using assms(2) by (cases time_data) auto
  have "\<exists>tr. run_loop trace_swap trace_time s ss d ds [] = Inr tr \<and> sorted_wrt dispatch_le tr"
    using run_loop_sorted [of s ss d ds "[]"] assms(3-6) s d by simp
  then obtain tr where tr: "run trace_swap trace_time swaps time_data [] = Inr tr"
      and srt: "sorted_wrt dispatch_le tr"
    using s d by (auto simp: run_def)
  have "sorted_wrt (\<lambda>x y. fst (call_key x) \<le> fst (call_key y)) tr"
    using srt
    by (rule sorted_wrt_mono_rel [rotated])
       (auto simp: dispatch_le_def py_tuple_le_def split: if_splits)
  then have a: "sorted (map (\<lambda>c. fst (call_key c)) tr)"
    by (simp add: sorted_map)
  have b: "i < j" if h: "i < length tr" "j < length tr" "tr ! i = OnTime d'"
      "tr ! j = OnSwap e'" "tm_timestamp d' = ev_timestamp e'" for i j e' d'
  proof (rule ccontr)
    assume "\<not> i < j"
    moreover have "i \<noteq> j" using h(3,4) by auto
    ultimately have "j < i" by simp
    then have "dispatch_le (tr ! j) (tr ! i)"
      using srt h(1) by (simp add: sorted_wrt_nth_less)
    then show False
      using h(3,4,5) by (simp add: dispatch_le_def py_tuple_le_def)
  qed
  show ?thesis using tr a b by blast
qed

theorem run_dispatch_order_witness:
  "\<exists>tr. run trace_swap trace_time [swap_at 1, swap_at 2] [time_at 1, time_at 3] [] = Inr tr
      \<and> sorted (map (\<lambda>c. fst (call_key c)) tr)"
proof -
  have "\<exists>tr. run trace_swap trace_time [swap_at 1, swap_at 2] [time_at 1, time_at 3] [] = Inr tr
           \<and> sorted (map (\<lambda>c. fst (call_key c)) tr)
           \<and> (\<forall>i j e d. i < length tr \<and> j < length tr
                 \<and> tr ! i = OnTime d \<and> tr ! j = OnSwap e
                 \<and> tm_timestamp d = ev_timestamp e \<longrightarrow> i < j)"
    by (rule run_dispatch_order) (simp_all add: swap_at_def time_at_def)
  then show ?thesis by blast
qed

end
